theory Spec2Isabelle
  imports Complex_Main "HOL-Library.Char_ord" "HOL-Library.List_Lexorder"
begin

section \<open>Strings\<close>

text \<open>
  A Python \<open>str\<close> is a sequence of code points. It is modelled by \<open>string\<close>, each
  \<open>char\<close> standing for one code point in the range U+0000 .. U+00FF, so that
  \<open>length\<close> counts what Python's \<open>len\<close> counts. The order on \<open>char\<close> and the
  lexicographic order on lists are the order of code points, which is also the order of
  SQLite's BINARY collation on the UTF-8 encoding.
\<close>

definition ascii_digit :: "char \<Rightarrow> bool" where
  "ascii_digit c = (c \<in> set ''0123456789'')"

text \<open>
  \<open>str.isdigit\<close>: below U+0100 it holds of the ten ASCII digits and of the superscript
  digits U+00B2, U+00B3 and U+00B9 (which \<open>\d\<close> in a regular expression does not match).
\<close>

definition py_isdigit :: "char \<Rightarrow> bool" where
  "py_isdigit c = (ascii_digit c \<or> c = char_of (0xB2::nat) \<or> c = char_of (0xB3::nat)
     \<or> c = char_of (0xB9::nat))"

text \<open>\<open>int(x)\<close> for a one-character string holding an ASCII digit.\<close>

definition int_of_digit :: "char \<Rightarrow> nat" where
  "int_of_digit c = of_char c - of_char (CHR ''0'')"

section \<open>Utils (main.py): normalisation, formatting and validation of the CPF\<close>

definition normalize_cpf :: "string \<Rightarrow> string" where
  "normalize_cpf cpf = (if cpf = [] then [] else filter py_isdigit cpf)"

definition normalize_phone :: "string \<Rightarrow> string" where
  "normalize_phone phone = (if phone = [] then [] else filter py_isdigit phone)"

definition format_cpf :: "string \<Rightarrow> string" where
  "format_cpf cpf =
     (let d = normalize_cpf cpf
      in if length d \<noteq> 11 then cpf
         else take 3 d @ ''.'' @ take 3 (drop 3 d) @ ''.'' @ take 3 (drop 6 d) @ ''-''
              @ take 2 (drop 9 d))"

text \<open>
  \<open>Config.CPF_PATTERN = re.compile(r'^\d{11}$')\<close>, matched against the result of
  \<open>normalize_cpf\<close>, which holds no newline: \<open>$\<close> is then the end of the string.
\<close>

definition CPF_PATTERN_match :: "string \<Rightarrow> bool" where
  "CPF_PATTERN_match d = (length d = 11 \<and> list_all ascii_digit d)"

text \<open>\<open>range(a, b, -1)\<close> for \<open>b \<le> a\<close>: the numbers \<open>a, a - 1, ..., b + 1\<close>.\<close>

definition range_down :: "nat \<Rightarrow> nat \<Rightarrow> nat list" where
  "range_down a b = rev [Suc b ..< Suc a]"

definition calc_digit :: "nat list \<Rightarrow> nat list \<Rightarrow> nat" where
  "calc_digit nums weights =
     (let s = sum_list (map (\<lambda>(a, b). a * b) (zip nums weights));
          r = 11 - (s mod 11)
      in if r \<ge> 10 then 0 else r)"

definition validate_cpf :: "string \<Rightarrow> bool" where
  "validate_cpf cpf =
     (let d = normalize_cpf cpf
      in if \<not> CPF_PATTERN_match d then False
         else if d = replicate 11 (hd d) then False
         else
           (let nums = map int_of_digit d;
                d1 = calc_digit (take 9 nums) (range_down 10 1);
                d2 = calc_digit (take 10 nums) (range_down 11 1)
            in nums ! 9 = d1 \<and> nums ! 10 = d2))"

subsection \<open>The check digits as the specification words them\<close>

text \<open>
  The weighted sum with weights \<open>w, w - 1, ...\<close> over the digits \<open>ds\<close>, and the check
  digit: the sum modulo 11 gives \<open>r\<close>, and \<open>11 - r\<close> is the digit, taken as 0 when it is
  10 or more.
\<close>

definition weighted_sum :: "nat \<Rightarrow> nat list \<Rightarrow> nat" where
  "weighted_sum w ds = (\<Sum>i<length ds. (w - i) * ds ! i)"

definition check_digit_spec :: "nat \<Rightarrow> nat list \<Rightarrow> nat" where
  "check_digit_spec w ds =
     (let r = weighted_sum w ds mod 11 in if 11 - r \<ge> 10 then 0 else 11 - r)"

definition all_identical :: "string \<Rightarrow> bool" where
  "all_identical d = (d = replicate (length d) (hd d))"

section \<open>Dates: \<open>datetime.strptime(s, '%d/%m/%Y')\<close>\<close>

record pydate =
  year :: nat
  month :: nat
  day :: nat

definition digit19 :: "char \<Rightarrow> bool" where
  "digit19 c = (c \<in> set ''123456789'')"

definition two_digits :: "char \<Rightarrow> char \<Rightarrow> nat" where
  "two_digits a b = 10 * int_of_digit a + int_of_digit b"

text \<open>
  The format is compiled to the regular expression
  \<open>(?P<d>3[0-1]|[1-2]\d|0[1-9]|[1-9]| [1-9])/(?P<m>1[0-2]|0[1-9]|[1-9])/(?P<Y>\d\d\d\d)\<close>
  and matched at the start of the string. Each group is modelled by the list of its
  matches in the order in which the alternatives are tried, a match being the number read
  and the rest of the string; the backtracking search is the list monad.
\<close>

definition match_d :: "string \<Rightarrow> (nat \<times> string) list" where
  "match_d s =
     (case s of
        a # b # r \<Rightarrow>
          (if a = CHR ''3'' \<and> b \<in> set ''01'' then [(two_digits a b, r)] else [])
          @ (if a \<in> set ''12'' \<and> ascii_digit b then [(two_digits a b, r)] else [])
          @ (if a = CHR ''0'' \<and> digit19 b then [(two_digits a b, r)] else [])
      | _ \<Rightarrow> [])
     @ (case s of a # r \<Rightarrow> if digit19 a then [(int_of_digit a, r)] else [] | [] \<Rightarrow> [])
     @ (case s of
          a # b # r \<Rightarrow> if a = CHR '' '' \<and> digit19 b then [(int_of_digit b, r)] else []
        | _ \<Rightarrow> [])"

definition match_m :: "string \<Rightarrow> (nat \<times> string) list" where
  "match_m s =
     (case s of
        a # b # r \<Rightarrow>
          (if a = CHR ''1'' \<and> b \<in> set ''012'' then [(two_digits a b, r)] else [])
          @ (if a = CHR ''0'' \<and> digit19 b then [(two_digits a b, r)] else [])
      | _ \<Rightarrow> [])
     @ (case s of a # r \<Rightarrow> if digit19 a then [(int_of_digit a, r)] else [] | [] \<Rightarrow> [])"

definition match_Y :: "string \<Rightarrow> (nat \<times> string) list" where
  "match_Y s =
     (case s of
        a # b # c # d # r \<Rightarrow>
          if ascii_digit a \<and> ascii_digit b \<and> ascii_digit c \<and> ascii_digit d
          then [(100 * two_digits a b + two_digits c d, r)] else []
      | _ \<Rightarrow> [])"

definition match_slash :: "string \<Rightarrow> string list" where
  "match_slash s = (case s of c # r \<Rightarrow> if c = CHR ''/'' then [r] else [] | [] \<Rightarrow> [])"

definition regex_dmY :: "string \<Rightarrow> (nat \<times> nat \<times> nat \<times> string) list" where
  "regex_dmY s =
     concat (map (\<lambda>(d, r1).
       concat (map (\<lambda>r2.
         concat (map (\<lambda>(m, r3).
           concat (map (\<lambda>r4.
             map (\<lambda>(y, r5). (d, m, y, r5)) (match_Y r4))
           (match_slash r3)))
         (match_m r2)))
       (match_slash r1)))
     (match_d s))"

definition is_leap :: "nat \<Rightarrow> bool" where
  "is_leap y = (y mod 4 = 0 \<and> (y mod 100 \<noteq> 0 \<or> y mod 400 = 0))"

definition days_in_month :: "nat \<Rightarrow> nat \<Rightarrow> nat" where
  "days_in_month y m =
     (if m = 2 then (if is_leap y then 29 else 28)
      else if m = 4 \<or> m = 6 \<or> m = 9 \<or> m = 11 then 30 else 31)"

text \<open>
  \<open>None\<close> is the \<open>ValueError\<close> of \<open>strptime\<close>: the string does not match the format,
  unconverted data remains after the match, or \<open>date(year, month, day)\<close> is out of range
  (the year 0, a day beyond the end of the month).
\<close>

definition strptime :: "string \<Rightarrow> pydate option" where
  "strptime s =
     (case regex_dmY s of
        [] \<Rightarrow> None
      | (d, m, y, r) # _ \<Rightarrow>
          if r \<noteq> [] then None
          else if y < 1 then None
          else if d > days_in_month y m then None
          else Some \<lparr>year = y, month = m, day = d\<rparr>)"


section \<open>The order of \<open>search_eventos\<close>\<close>

text \<open>SQLite's \<open>substr(X, Y, Z)\<close> for \<open>Y \<ge> 1\<close>: \<open>Z\<close> characters from the \<open>Y\<close>-th on.\<close>

definition substr :: "string \<Rightarrow> nat \<Rightarrow> nat \<Rightarrow> string" where
  "substr x y z = take z (drop (y - 1) x)"

text \<open>
  \<open>ORDER BY substr(data_evento,7,4) DESC, substr(data_evento,4,2) DESC,
  substr(data_evento,1,2) DESC\<close>: the row whose date text is \<open>a\<close> is placed strictly before
  the row whose date text is \<open>b\<close>. Text is compared with the BINARY collation.
\<close>

definition order_by_data_evento_desc :: "string \<Rightarrow> string \<Rightarrow> bool" where
  "order_by_data_evento_desc a b =
     (substr a 7 4 > substr b 7 4
      \<or> (substr a 7 4 = substr b 7 4
          \<and> (substr a 4 2 > substr b 4 2
              \<or> (substr a 4 2 = substr b 4 2 \<and> substr a 1 2 > substr b 1 2))))"

text \<open>The reference order: parse, then compare the dates; \<open>later x y\<close> is \<open>x > y\<close>.\<close>

definition later :: "pydate \<Rightarrow> pydate \<Rightarrow> bool" where
  "later x y =
     (year x > year y
      \<or> (year x = year y \<and> (month x > month y \<or> (month x = month y \<and> day x > day y))))"

text \<open>The shape \<open>DD/MM/YYYY\<close>: two digits, a slash, two digits, a slash, four digits.\<close>

definition DD_MM_YYYY :: "string \<Rightarrow> bool" where
  "DD_MM_YYYY s =
     (case s of
        [d1, d2, s1, m1, m2, s2, y1, y2, y3, y4] \<Rightarrow>
          list_all ascii_digit [d1, d2, m1, m2, y1, y2, y3, y4]
          \<and> s1 = CHR ''/'' \<and> s2 = CHR ''/''
      | _ \<Rightarrow> False)"

section \<open>Errors, dictionaries and rows\<close>

text \<open>
  The messages of the exceptions raised by the services and the controller:
  \<open>NomeObrigatorio\<close> is "O nome e obrigatorio.", \<open>CpfInvalido\<close> is "CPF invalido.",
  \<open>CpfJaCadastrado\<close> is "CPF ja cadastrado.", \<open>CpfJaCadastradoOutraPessoa\<close> is
  "CPF ja cadastrado para outra pessoa" (with a full stop in the service, an exclamation
  mark in the controller), \<open>TituloObrigatorio\<close> is "O titulo do evento e obrigatorio.",
  \<open>DataEventoInvalida\<close> is "Data do evento invalida. Use o formato DD/MM/AAAA." and
  \<open>FalhaAoAtualizar\<close> is "Falha ao atualizar a pessoa no banco de dados.".
\<close>

datatype message =
  NomeObrigatorio | CpfInvalido | CpfJaCadastrado | CpfJaCadastradoOutraPessoa
  | TituloObrigatorio | DataEventoInvalida | FalhaAoAtualizar

text \<open>
  \<open>ValueError\<close> and \<open>Exception\<close> carry their message; \<open>TypeError\<close> is the
  "unhashable type" error of \<open>hash\<close>; \<open>IntegrityError\<close> is \<open>sqlite3.IntegrityError\<close>, the
  error of the store on a violated UNIQUE or NOT NULL constraint.
\<close>

datatype error = ValueError message | TypeError | IntegrityError | Exception message

text \<open>
  A \<open>Dict\<close> from field names to strings, as an association list read with \<open>map_of\<close>.
  \<open>d.get(k)\<close> is \<open>map_of d k\<close>, with \<open>None\<close> for a missing key (or a key bound to
  \<open>None\<close>); \<open>d[k] = v\<close> puts the binding in front.
\<close>

type_synonym pydict = "(string \<times> string) list"

definition dict_get :: "pydict \<Rightarrow> string \<Rightarrow> string \<Rightarrow> string" where
  "dict_get d k dflt = (case map_of d k of None \<Rightarrow> dflt | Some v \<Rightarrow> v)"

definition dict_set :: "pydict \<Rightarrow> string \<Rightarrow> string \<Rightarrow> pydict" where
  "dict_set d k v = (k, v) # d"

text \<open>Python's truth value of \<open>d.get(k)\<close>: the key is bound to a non-empty string.\<close>

definition truthy :: "pydict \<Rightarrow> string \<Rightarrow> bool" where
  "truthy d k = (case map_of d k of None \<Rightarrow> False | Some v \<Rightarrow> v \<noteq> [])"

text \<open>
  The rows of the tables \<open>pessoas\<close> and \<open>eventos\<close> (\<open>_ensure_db\<close>). A column declared
  \<open>NOT NULL\<close> holds a string, any other text column a string or \<open>NULL\<close>.
\<close>

record pessoa =
  pessoa_id :: int
  nome :: string
  cpf :: "string option"
  telefone :: "string option"
  cidade :: "string option"
  bairro :: "string option"
  data_nascimento :: "string option"
  email :: "string option"
  rede_social :: "string option"
  observacoes :: "string option"
  ativo :: bool
  data_cadastro :: string
  data_atualizacao :: "string option"

record evento =
  evento_id :: int
  titulo :: string
  descricao :: "string option"
  data_evento :: string
  tipo :: "string option"
  local_evento :: "string option"
  responsavel :: "string option"
  evento_ativo :: bool
  criado_em :: string
  atualizado_em :: "string option"

text \<open>
  The database file and the backup directory. A table is the list of its rows in the
  order of their row ids; \<open>pessoas_seq\<close> and \<open>eventos_seq\<close> are the AUTOINCREMENT counters
  (the largest id ever given). A time is a naive \<open>datetime\<close>, counted in microseconds;
  \<open>config\<close> binds a key to the time whose \<open>isoformat()\<close> text the table holds, and
  \<open>backups\<close> lists the files \<open>backup_YYYYMMDD_HHMMSS.db\<close> by their time in seconds.
\<close>

record database =
  pessoas :: "pessoa list"
  pessoas_seq :: int
  eventos :: "evento list"
  eventos_seq :: int
  config :: "(string \<times> int) list"
  backups :: "int list"

definition empty_db :: database where
  "empty_db = \<lparr>pessoas = [], pessoas_seq = 0, eventos = [], eventos_seq = 0, config = [],
     backups = []\<rparr>"

section \<open>DatabaseManager (main.py): the statements on \<open>pessoas\<close> and \<open>eventos\<close>\<close>

text \<open>
  \<open>cpf TEXT UNIQUE\<close>: a value that is not \<open>NULL\<close> may occur in one row only, whatever
  the row's \<open>ativo\<close>. \<open>unique_violation rows skip v\<close>: a row other than those with id
  \<open>skip\<close> holds \<open>v\<close> already.
\<close>

definition unique_violation :: "pessoa list \<Rightarrow> int option \<Rightarrow> string option \<Rightarrow> bool" where
  "unique_violation rows skip v =
     (case v of
        None \<Rightarrow> False
      | Some c \<Rightarrow> list_ex (\<lambda>r. cpf r = Some c \<and> Some (pessoa_id r) \<noteq> skip) rows)"

text \<open>
  \<open>add_pessoa\<close> of main.py ("dados ja normalizados"): the INSERT with the ten values read
  from the dictionary. \<open>nome\<close> and \<open>data_cadastro\<close> are \<open>NOT NULL\<close>.
\<close>

definition dm_add_pessoa :: "database \<Rightarrow> pydict \<Rightarrow> error + (int \<times> database)" where
  "dm_add_pessoa db p =
     (case (map_of p ''nome'', map_of p ''data_cadastro'') of
        (Some n, Some dc) \<Rightarrow>
          if unique_violation (pessoas db) None (map_of p ''cpf'') then Inl IntegrityError
          else
            (let i = pessoas_seq db + 1;
                 row = \<lparr>pessoa_id = i, nome = n, cpf = map_of p ''cpf'',
                   telefone = map_of p ''telefone'', cidade = map_of p ''cidade'',
                   bairro = map_of p ''bairro'',
                   data_nascimento = map_of p ''data_nascimento'',
                   email = map_of p ''email'', rede_social = map_of p ''rede_social'',
                   observacoes = map_of p ''observacoes'', ativo = True,
                   data_cadastro = dc, data_atualizacao = None\<rparr>
             in Inr (i, db\<lparr>pessoas := pessoas db @ [row], pessoas_seq := i\<rparr>))
      | _ \<Rightarrow> Inl IntegrityError)"

text \<open>
  \<open>update_pessoa\<close> of main.py: the UPDATE of the row with the given id; the result is
  \<open>affected > 0\<close>. Constraints are checked on the rows the statement changes.
\<close>

definition dm_update_pessoa :: "database \<Rightarrow> int \<Rightarrow> pydict \<Rightarrow> error + (bool \<times> database)" where
  "dm_update_pessoa db pid p =
     (if \<not> list_ex (\<lambda>r. pessoa_id r = pid) (pessoas db) then Inr (False, db)
      else
        (case map_of p ''nome'' of
           None \<Rightarrow> Inl IntegrityError
         | Some n \<Rightarrow>
             if unique_violation (pessoas db) (Some pid) (map_of p ''cpf'')
             then Inl IntegrityError
             else Inr (True, db\<lparr>pessoas :=
               map (\<lambda>r. if pessoa_id r = pid
                    then r\<lparr>nome := n, cpf := map_of p ''cpf'',
                      telefone := map_of p ''telefone'', cidade := map_of p ''cidade'',
                      bairro := map_of p ''bairro'',
                      data_nascimento := map_of p ''data_nascimento'',
                      email := map_of p ''email'', rede_social := map_of p ''rede_social'',
                      observacoes := map_of p ''observacoes'',
                      data_atualizacao := map_of p ''data_atualizacao''\<rparr>
                    else r) (pessoas db)\<rparr>)))"

text \<open>\<open>delete_pessoa\<close> of main.py: \<open>UPDATE pessoas SET ativo=0\<close> or \<open>DELETE\<close>.\<close>

definition dm_delete_pessoa :: "database \<Rightarrow> int \<Rightarrow> bool \<Rightarrow> bool \<times> database" where
  "dm_delete_pessoa db pid soft =
     (list_ex (\<lambda>r. pessoa_id r = pid) (pessoas db),
      if soft
      then db\<lparr>pessoas := map (\<lambda>r. if pessoa_id r = pid then r\<lparr>ativo := False\<rparr> else r)
             (pessoas db)\<rparr>
      else db\<lparr>pessoas := filter (\<lambda>r. pessoa_id r \<noteq> pid) (pessoas db)\<rparr>)"

text \<open>
  \<open>cpf_exists\<close> of main.py ("CPF deve ser normalizado antes de chamar"). \<open>if exclude_id:\<close>
  takes \<open>None\<close> and 0 alike.
\<close>

definition dm_cpf_exists :: "database \<Rightarrow> string \<Rightarrow> int option \<Rightarrow> bool" where
  "dm_cpf_exists db c exclude_id =
     (if c = [] then False
      else if exclude_id \<noteq> None \<and> exclude_id \<noteq> Some 0
      then list_ex (\<lambda>r. cpf r = Some c \<and> Some (pessoa_id r) \<noteq> exclude_id) (pessoas db)
      else list_ex (\<lambda>r. cpf r = Some c) (pessoas db))"


section \<open>AppController (main.py)\<close>

text \<open>
  \<open>salvar_pessoa\<close>; \<open>now\<close> is \<open>datetime.now().strftime(Config.DATETIME_FORMAT)\<close>. The
  \<open>clear_cache\<close> at its end clears the cache of \<open>get_cidades\<close>, which holds no row.
\<close>

definition salvar_pessoa ::
  "string \<Rightarrow> database \<Rightarrow> pydict \<Rightarrow> int option \<Rightarrow> error + (int \<times> database)" where
  "salvar_pessoa now db pessoa0 pid =
     (let pessoa1 = dict_set pessoa0 ''cpf'' (normalize_cpf (dict_get pessoa0 ''cpf'' []));
          pessoa2 = dict_set pessoa1 ''telefone''
                      (normalize_phone (dict_get pessoa1 ''telefone'' []))
      in if truthy pessoa2 ''cpf'' \<and> dm_cpf_exists db (dict_get pessoa2 ''cpf'' []) pid
         then Inl (ValueError CpfJaCadastradoOutraPessoa)
         else
           (case pid of
              Some i \<Rightarrow>
                if i = 0
                then dm_add_pessoa db (dict_set pessoa2 ''data_cadastro'' now)
                else
                  (case dm_update_pessoa db i (dict_set pessoa2 ''data_atualizacao'' now) of
                     Inl e \<Rightarrow> Inl e
                   | Inr (success, db') \<Rightarrow>
                       if \<not> success then Inl (Exception FalhaAoAtualizar) else Inr (i, db'))
            | None \<Rightarrow> dm_add_pessoa db (dict_set pessoa2 ''data_cadastro'' now)))"

definition excluir_pessoa :: "database \<Rightarrow> int \<Rightarrow> string \<Rightarrow> bool \<times> database" where
  "excluir_pessoa db pid name = dm_delete_pessoa db pid True"

section \<open>DatabaseManager (models/database.py)\<close>

text \<open>
  \<open>add_pessoa\<close>: the dictionary is copied, \<open>cpf\<close> and \<open>telefone\<close> are normalised,
  \<open>data_cadastro\<close> is set, and the INSERT of main.py is run through \<open>execute_command\<close>.
  (\<open>clear_cache\<close> then empties the dictionary \<open>self._cache\<close>, which nothing fills.)
\<close>

definition db_add_pessoa :: "string \<Rightarrow> database \<Rightarrow> pydict \<Rightarrow> error + (int \<times> database)" where
  "db_add_pessoa now db pessoa0 =
     (let pessoa1 = dict_set pessoa0 ''cpf'' (normalize_cpf (dict_get pessoa0 ''cpf'' []));
          pessoa2 = dict_set pessoa1 ''telefone''
                      (normalize_phone (dict_get pessoa1 ''telefone'' []));
          pessoa3 = dict_set pessoa2 ''data_cadastro'' now
      in dm_add_pessoa db pessoa3)"

text \<open>
  models/database.py elides \<open>update_pessoa\<close>, \<open>delete_pessoa\<close> and \<open>add_evento\<close> ("os
  metodos CRUD originais ... permanecem aqui"): they are those of main.py,
  \<open>dm_update_pessoa\<close>, \<open>dm_delete_pessoa\<close> and \<open>dm_add_evento\<close>.
\<close>

section \<open>PessoaService and EventoService (services)\<close>

text \<open>
  The services call \<open>utils.validators.Validators\<close>, a module that is not among the sources;
  its \<open>normalize_cpf\<close>, \<open>validate_cpf\<close> and \<open>validate_date\<close> are taken to be those of
  \<open>Utils\<close> in main.py.
\<close>

definition cpf_exists :: "database \<Rightarrow> string \<Rightarrow> int option \<Rightarrow> bool" where
  "cpf_exists db c0 exclude_id =
     (let c = normalize_cpf c0
      in if c = [] then False
         else if exclude_id \<noteq> None \<and> exclude_id \<noteq> Some 0
         then list_ex (\<lambda>r. cpf r = Some c \<and> Some (pessoa_id r) \<noteq> exclude_id) (pessoas db)
         else list_ex (\<lambda>r. cpf r = Some c) (pessoas db))"

definition add_pessoa :: "string \<Rightarrow> database \<Rightarrow> pydict \<Rightarrow> error + (int \<times> database)" where
  "add_pessoa now db pessoa0 =
     (if \<not> truthy pessoa0 ''nome'' then Inl (ValueError NomeObrigatorio)
      else
        (let c = normalize_cpf (dict_get pessoa0 ''cpf'' [])
         in if c \<noteq> [] \<and> \<not> validate_cpf c then Inl (ValueError CpfInvalido)
            else if c \<noteq> [] \<and> cpf_exists db c None then Inl (ValueError CpfJaCadastrado)
            else db_add_pessoa now db pessoa0))"

text \<open>
  \<open>update_pessoa\<close> of the service: the normalised document number is checked, and the
  dictionary goes to the store as the caller gave it.
\<close>

definition update_pessoa ::
  "database \<Rightarrow> int \<Rightarrow> pydict \<Rightarrow> error + (bool \<times> database)" where
  "update_pessoa db pid pessoa0 =
     (if \<not> truthy pessoa0 ''nome'' then Inl (ValueError NomeObrigatorio)
      else
        (let c = normalize_cpf (dict_get pessoa0 ''cpf'' [])
         in if c \<noteq> [] \<and> \<not> validate_cpf c then Inl (ValueError CpfInvalido)
            else if c \<noteq> [] \<and> cpf_exists db c (Some pid)
            then Inl (ValueError CpfJaCadastradoOutraPessoa)
            else dm_update_pessoa db pid pessoa0))"

definition delete_pessoa :: "database \<Rightarrow> int \<Rightarrow> bool \<Rightarrow> bool \<times> database" where
  "delete_pessoa db pid soft = dm_delete_pessoa db pid soft"


section \<open>PessoaService.search_pessoas and its \<open>lru_cache\<close>\<close>

definition ascii_lower :: "char \<Rightarrow> char" where
  "ascii_lower c =
     (if c \<in> set ''ABCDEFGHIJKLMNOPQRSTUVWXYZ'' then char_of (of_char c + (32::nat)) else c)"

text \<open>
  SQLite's \<open>LIKE\<close>: \<open>%\<close> stands for any run of characters, \<open>_\<close> for one character, and
  ASCII letters match whatever their case.
\<close>

fun sql_like :: "string \<Rightarrow> string \<Rightarrow> bool" where
  "sql_like [] s = (s = [])"
| "sql_like (p # ps) [] = (p = CHR ''%'' \<and> sql_like ps [])"
| "sql_like (p # ps) (c # cs) =
     (if p = CHR ''%'' then sql_like ps (c # cs) \<or> sql_like (p # ps) cs
      else (p = CHR ''_'' \<or> ascii_lower p = ascii_lower c) \<and> sql_like ps cs)"

text \<open>\<open>str.zfill\<close>: zeros are put on the left, after a leading sign.\<close>

definition zfill :: "nat \<Rightarrow> string \<Rightarrow> string" where
  "zfill w s =
     (if length s \<ge> w then s
      else
        (case s of
           [] \<Rightarrow> replicate w (CHR ''0'')
         | c # cs \<Rightarrow>
             if c = CHR ''+'' \<or> c = CHR ''-''
             then c # replicate (w - length s) (CHR ''0'') @ cs
             else replicate (w - length s) (CHR ''0'') @ s))"

text \<open>
  The body of \<open>search_pessoas\<close>: the SELECT with the optional conditions, ordered by
  \<open>nome\<close>. A condition on a column that is \<open>NULL\<close> does not hold.
\<close>

definition like_column :: "string \<Rightarrow> string option \<Rightarrow> bool" where
  "like_column pat v = (case v of None \<Rightarrow> False | Some t \<Rightarrow> sql_like pat t)"

definition search_pessoas_query :: "database \<Rightarrow> pydict option \<Rightarrow> bool \<Rightarrow> pessoa list" where
  "search_pessoas_query db filters only_active =
     sort_key nome
       (filter (\<lambda>r.
          (if only_active then ativo r else True)
          \<and> (case filters of
                None \<Rightarrow> True
              | Some f \<Rightarrow>
                  (if truthy f ''nome''
                   then sql_like (''%'' @ dict_get f ''nome'' [] @ ''%'') (nome r) else True)
                  \<and> (if truthy f ''cpf''
                      then like_column (''%'' @ normalize_cpf (dict_get f ''cpf'' []) @ ''%'')
                             (cpf r)
                      else True)
                  \<and> (if truthy f ''cidade''
                      then like_column (''%'' @ dict_get f ''cidade'' [] @ ''%'') (cidade r)
                      else True)
                  \<and> (if truthy f ''mes_aniversario''
                      then (case data_nascimento r of
                              None \<Rightarrow> False
                            | Some d \<Rightarrow> substr d 4 2 = zfill 2 (dict_get f ''mes_aniversario'' []))
                      else True)))
          (pessoas db))"

text \<open>
  The service object: the database behind it and the cache that \<open>@lru_cache(maxsize=128)\<close>
  keeps for \<open>search_pessoas\<close>, most recently used entry first. The key of an entry is made
  of the arguments \<open>filters\<close> and \<open>only_active\<close> (and of \<open>self\<close>, the one service).
\<close>

record PessoaService =
  svc_db :: database
  search_cache :: "((pydict option \<times> bool) \<times> pessoa list) list"

text \<open>\<open>hash\<close> of the argument \<open>filters\<close>: \<open>None\<close> has a hash, a \<open>dict\<close> has none.\<close>

definition hashable :: "pydict option \<Rightarrow> bool" where
  "hashable filters = (filters = None)"

definition maxsize :: nat where
  "maxsize = 128"

text \<open>
  The wrapper of \<open>lru_cache\<close> makes the key first, which hashes the arguments and raises
  \<open>TypeError\<close> for a \<open>dict\<close>; a hit returns the stored rows without running the body; a miss
  runs the body and stores its result, dropping the least recently used entry when full.
\<close>

definition search_pessoas ::
  "PessoaService \<Rightarrow> pydict option \<Rightarrow> bool \<Rightarrow> error + (pessoa list \<times> PessoaService)" where
  "search_pessoas svc filters only_active =
     (if \<not> hashable filters then Inl TypeError
      else
        (let key = (filters, only_active)
         in case map_of (search_cache svc) key of
              Some res \<Rightarrow>
                Inr (res, svc\<lparr>search_cache :=
                  (key, res) # filter (\<lambda>e. fst e \<noteq> key) (search_cache svc)\<rparr>)
            | None \<Rightarrow>
                (let res = search_pessoas_query (svc_db svc) filters only_active
                 in Inr (res, svc\<lparr>search_cache :=
                      take maxsize ((key, res) # search_cache svc)\<rparr>))))"

text \<open>
  The writers as methods of the service object: they change the database and leave the
  cache of \<open>search_pessoas\<close> as it is (no \<open>cache_clear\<close> is called anywhere).
\<close>

definition service_add_pessoa ::
  "string \<Rightarrow> PessoaService \<Rightarrow> pydict \<Rightarrow> error + (int \<times> PessoaService)" where
  "service_add_pessoa now svc p =
     (case add_pessoa now (svc_db svc) p of
        Inl e \<Rightarrow> Inl e
      | Inr (i, db') \<Rightarrow> Inr (i, svc\<lparr>svc_db := db'\<rparr>))"

definition service_update_pessoa ::
  "PessoaService \<Rightarrow> int \<Rightarrow> pydict \<Rightarrow> error + (bool \<times> PessoaService)" where
  "service_update_pessoa svc pid p =
     (case update_pessoa (svc_db svc) pid p of
        Inl e \<Rightarrow> Inl e
      | Inr (b, db') \<Rightarrow> Inr (b, svc\<lparr>svc_db := db'\<rparr>))"

definition service_delete_pessoa ::
  "PessoaService \<Rightarrow> int \<Rightarrow> bool \<Rightarrow> bool \<times> PessoaService" where
  "service_delete_pessoa svc pid soft =
     (case delete_pessoa (svc_db svc) pid soft of (b, db') \<Rightarrow> (b, svc\<lparr>svc_db := db'\<rparr>))"

definition new_service :: "database \<Rightarrow> PessoaService" where
  "new_service db = \<lparr>svc_db = db, search_cache = []\<rparr>"

section \<open>DatabaseManager: backups\<close>

text \<open>
  The manager object: the database behind it and the field \<open>_last_backup\<close>, which
  \<open>__init__\<close> reads from the table \<open>config\<close>.
\<close>

record DatabaseManager =
  dm_db :: database
  last_backup :: "int option"

definition MAX_BACKUPS :: nat where
  "MAX_BACKUPS = 10"

definition AUTO_BACKUP_INTERVAL :: real where
  "AUTO_BACKUP_INTERVAL = 24"

definition get_config :: "database \<Rightarrow> string \<Rightarrow> int option" where
  "get_config db key = map_of (config db) key"

definition set_config :: "database \<Rightarrow> string \<Rightarrow> int \<Rightarrow> database" where
  "set_config db key v = db\<lparr>config := (key, v) # filter (\<lambda>e. fst e \<noteq> key) (config db)\<rparr>"

definition get_last_backup_time :: "database \<Rightarrow> int option" where
  "get_last_backup_time db = get_config db ''last_backup''"

definition init_manager :: "database \<Rightarrow> DatabaseManager" where
  "init_manager db = \<lparr>dm_db = db, last_backup = get_last_backup_time db\<rparr>"

text \<open>
  \<open>_cleanup_old_backups\<close>: the files sorted by name, the oldest removed while there are
  more than \<open>MAX_BACKUPS\<close>.
\<close>

definition cleanup_old_backups :: "int list \<Rightarrow> int list" where
  "cleanup_old_backups files = drop (length files - MAX_BACKUPS) (sort files)"

text \<open>
  \<open>create_backup\<close>; \<open>now1\<close> and \<open>now2\<close> are its two readings of \<open>datetime.now()\<close>. The file
  is copied under the name of the second of \<open>now1\<close> (over a file of that name, if any),
  old backups are removed, and \<open>last_backup\<close> is written to the table \<open>config\<close>. The field
  \<open>_last_backup\<close> of the manager is not assigned.
\<close>

definition create_backup :: "int \<Rightarrow> int \<Rightarrow> DatabaseManager \<Rightarrow> int \<times> DatabaseManager" where
  "create_backup now1 now2 m =
     (let stamp = now1 div 1000000;
          db = dm_db m;
          files = (if stamp \<in> set (backups db) then backups db else backups db @ [stamp]);
          db1 = db\<lparr>backups := cleanup_old_backups files\<rparr>;
          db2 = set_config db1 ''last_backup'' now2
      in (stamp, m\<lparr>dm_db := db2\<rparr>))"

text \<open>
  \<open>should_backup\<close>: \<open>(datetime.now() - self._last_backup).total_seconds() / 3600\<close> against
  the interval. The times are whole microseconds, for which the quotient computed in
  floating point is on the same side of 24 as the exact quotient.
\<close>

definition should_backup :: "int \<Rightarrow> DatabaseManager \<Rightarrow> bool" where
  "should_backup now m =
     (case last_backup m of
        None \<Rightarrow> True
      | Some t \<Rightarrow> real_of_int (now - t) / 1000000 / 3600 \<ge> AUTO_BACKUP_INTERVAL)"

section \<open>The ledger (finaiceiro.py)\<close>

text \<open>
  A Python \<open>float\<close>: a finite value, an infinity or a NaN. \<open>le_zero\<close> is \<open>x <= 0\<close> and
  \<open>gt_zero\<close> is \<open>x > 0\<close>; both are false of a NaN.
\<close>

datatype pyfloat = Finite real | PosInf | NegInf | NaN

definition le_zero :: "pyfloat \<Rightarrow> bool" where
  "le_zero x = (case x of Finite r \<Rightarrow> r \<le> 0 | PosInf \<Rightarrow> False | NegInf \<Rightarrow> True | NaN \<Rightarrow> False)"

definition gt_zero :: "pyfloat \<Rightarrow> bool" where
  "gt_zero x = (case x of Finite r \<Rightarrow> r > 0 | PosInf \<Rightarrow> True | NegInf \<Rightarrow> False | NaN \<Rightarrow> False)"

text \<open>\<open>str.isspace\<close> below U+0100, and \<open>str.strip()\<close>.\<close>

definition py_isspace :: "char \<Rightarrow> bool" where
  "py_isspace c = ((of_char c :: nat) \<in> {9, 10, 11, 12, 13, 28, 29, 30, 31, 32, 133, 160})"

definition strip :: "string \<Rightarrow> string" where
  "strip s = rev (dropWhile py_isspace (rev (dropWhile py_isspace s)))"

text \<open>\<open>s.replace(old, new)\<close> for a non-empty \<open>old\<close>: from the left, without overlap.\<close>

function py_replace :: "string \<Rightarrow> string \<Rightarrow> string \<Rightarrow> string" where
  "py_replace old new s =
     (if old = [] \<or> s = [] then s
      else if take (length old) s = old then new @ py_replace old new (drop (length old) s)
      else hd s # py_replace old new (tl s))"
  by pat_completeness auto
termination
  by (relation "measure (\<lambda>(old, new, s). length s)") auto

text \<open>
  \<open>CurrencyFormatter.parse_value\<close>; \<open>float_of\<close> is Python's \<open>float\<close> on strings, \<open>None\<close>
  being its \<open>ValueError\<close>.
\<close>

definition parse_value :: "(string \<Rightarrow> pyfloat option) \<Rightarrow> string \<Rightarrow> pyfloat option" where
  "parse_value float_of value_str =
     (let cleaned = strip (py_replace '' '' [] (py_replace ''R$'' [] value_str));
          cleaned = py_replace ''.'' [] cleaned;
          cleaned = py_replace '','' ''.'' cleaned
      in float_of cleaned)"

text \<open>
  \<open>strftime("%m/%Y")\<close>. The month is written with two digits. The year is written by the
  C library: with four digits, or, on a platform that does not pad (\<open>pad = False\<close>),
  without leading zeros; the two agree from the year 1000 on.
\<close>

definition digit_char :: "nat \<Rightarrow> char" where
  "digit_char n = char_of (of_char (CHR ''0'') + n)"

definition strftime_m :: "nat \<Rightarrow> string" where
  "strftime_m m = [digit_char (m div 10), digit_char (m mod 10)]"

definition strftime_Y :: "bool \<Rightarrow> nat \<Rightarrow> string" where
  "strftime_Y pad y =
     (let four = [digit_char (y div 1000), digit_char (y div 100 mod 10),
                  digit_char (y div 10 mod 10), digit_char (y mod 10)]
      in if pad then four else dropWhile (\<lambda>c. c = CHR ''0'') four)"

definition strftime_mY :: "bool \<Rightarrow> pydate \<Rightarrow> string" where
  "strftime_mY pad d = strftime_m (month d) @ ''/'' @ strftime_Y pad (year d)"

text \<open>
  \<open>DateValidator.get_month_year\<close>; \<open>None\<close> is the \<open>ValueError\<close> of \<open>strptime\<close>.
\<close>

definition get_month_year :: "bool \<Rightarrow> string \<Rightarrow> string option" where
  "get_month_year pad date_str = map_option (strftime_mY pad) (strptime date_str)"

text \<open>
  The tables \<open>expenses\<close> and \<open>contributions\<close> (\<open>init_database\<close>); the column \<open>created_at\<close>,
  which the database fills, is left out.
\<close>

record expense =
  expense_id :: int
  expense_date :: string
  category :: string
  description :: string
  expense_amount :: pyfloat
  expense_month_year :: string

record contribution =
  contribution_id :: int
  contribution_date :: string
  contribution_type :: string
  contributor :: string
  contribution_amount :: pyfloat
  contribution_month_year :: string

record ledger =
  expenses :: "expense list"
  expenses_seq :: int
  contributions :: "contribution list"
  contributions_seq :: int

definition empty_ledger :: ledger where
  "empty_ledger = \<lparr>expenses = [], expenses_seq = 0, contributions = [], contributions_seq = 0\<rparr>"

text \<open>
  What a handler of the form does other than write: it shows an error box and returns
  (\<open>NoCategory\<close> ... \<open>NoSelection\<close>), or the INSERT raises \<open>sqlite3.IntegrityError\<close>
  (\<open>StoreError\<close>): a NaN is bound as \<open>NULL\<close>, and \<open>amount\<close> is \<open>NOT NULL\<close>.
\<close>

datatype form_error =
  NoCategory | NoAmount | NoDate | InvalidDate | InvalidAmount | NoSelection | StoreError

text \<open>
  \<open>add_expense\<close>; the arguments are the contents of the widgets \<open>expense_category\<close>,
  \<open>expense_amount\<close>, \<open>expense_date\<close> and \<open>expense_desc\<close>.
\<close>

definition add_expense ::
  "bool \<Rightarrow> (string \<Rightarrow> pyfloat option) \<Rightarrow> string \<Rightarrow> string \<Rightarrow> string \<Rightarrow> string \<Rightarrow> ledger
    \<Rightarrow> form_error + ledger" where
  "add_expense pad float_of cat amount_entry date_entry desc_entry l =
     (let amount_str = strip amount_entry;
          date_str = strip date_entry;
          desc = strip desc_entry
      in if cat = [] then Inl NoCategory
         else if amount_str = [] then Inl NoAmount
         else if date_str = [] then Inl NoDate
         else if strptime date_str = None then Inl InvalidDate
         else
           (case parse_value float_of amount_str of
              None \<Rightarrow> Inl InvalidAmount
            | Some amount \<Rightarrow>
                if le_zero amount then Inl InvalidAmount
                else
                  (case get_month_year pad date_str of
                     None \<Rightarrow> Inl InvalidDate
                   | Some my \<Rightarrow>
                       if amount = NaN then Inl StoreError
                       else
                         (let i = expenses_seq l + 1
                          in Inr (l\<lparr>expenses := expenses l @
                               [\<lparr>expense_id = i, expense_date = date_str, category = cat,
                                 description = desc, expense_amount = amount,
                                 expense_month_year = my\<rparr>],
                               expenses_seq := i\<rparr>)))))"

text \<open>
  \<open>delete_expense\<close>; \<open>selection\<close> is the id of the selected line of the list, if any, and
  \<open>confirmed\<close> is the answer to the question box.
\<close>

definition delete_expense :: "int option \<Rightarrow> bool \<Rightarrow> ledger \<Rightarrow> form_error + ledger" where
  "delete_expense selection confirmed l =
     (case selection of
        None \<Rightarrow> Inl NoSelection
      | Some i \<Rightarrow>
          if \<not> confirmed then Inr l
          else Inr (l\<lparr>expenses := filter (\<lambda>e. expense_id e \<noteq> i) (expenses l)\<rparr>))"

definition add_contribution ::
  "bool \<Rightarrow> (string \<Rightarrow> pyfloat option) \<Rightarrow> string \<Rightarrow> string \<Rightarrow> string \<Rightarrow> string \<Rightarrow> ledger
    \<Rightarrow> form_error + ledger" where
  "add_contribution pad float_of ctype amount_entry date_entry name_entry l =
     (let amount_str = strip amount_entry;
          date_str = strip date_entry;
          name = strip name_entry
      in if ctype = [] then Inl NoCategory
         else if amount_str = [] then Inl NoAmount
         else if date_str = [] then Inl NoDate
         else if strptime date_str = None then Inl InvalidDate
         else
           (case parse_value float_of amount_str of
              None \<Rightarrow> Inl InvalidAmount
            | Some amount \<Rightarrow>
                if le_zero amount then Inl InvalidAmount
                else
                  (case get_month_year pad date_str of
                     None \<Rightarrow> Inl InvalidDate
                   | Some my \<Rightarrow>
                       if amount = NaN then Inl StoreError
                       else
                         (let i = contributions_seq l + 1
                          in Inr (l\<lparr>contributions := contributions l @
                               [\<lparr>contribution_id = i, contribution_date = date_str,
                                 contribution_type = ctype, contributor = name,
                                 contribution_amount = amount,
                                 contribution_month_year = my\<rparr>],
                               contributions_seq := i\<rparr>)))))"

definition delete_contribution :: "int option \<Rightarrow> bool \<Rightarrow> ledger \<Rightarrow> form_error + ledger" where
  "delete_contribution selection confirmed l =
     (case selection of
        None \<Rightarrow> Inl NoSelection
      | Some i \<Rightarrow>
          if \<not> confirmed then Inr l
          else Inr (l\<lparr>contributions := filter (\<lambda>e. contribution_id e \<noteq> i) (contributions l)\<rparr>))"

text \<open>Sequences of uses of the four handlers; a handler that does not write leaves the ledger.\<close>

datatype ledger_op =
  AddExpense string string string string
  | DeleteExpense "int option" bool
  | AddContribution string string string string
  | DeleteContribution "int option" bool

fun ledger_call ::
  "bool \<Rightarrow> (string \<Rightarrow> pyfloat option) \<Rightarrow> ledger_op \<Rightarrow> ledger \<Rightarrow> form_error + ledger" where
  "ledger_call pad float_of (AddExpense c a d t) l = add_expense pad float_of c a d t l"
| "ledger_call pad float_of (DeleteExpense s c) l = delete_expense s c l"
| "ledger_call pad float_of (AddContribution c a d t) l = add_contribution pad float_of c a d t l"
| "ledger_call pad float_of (DeleteContribution s c) l = delete_contribution s c l"

definition ledger_step ::
  "bool \<Rightarrow> (string \<Rightarrow> pyfloat option) \<Rightarrow> ledger \<Rightarrow> ledger_op \<Rightarrow> ledger" where
  "ledger_step pad float_of l x =
     (case ledger_call pad float_of x l of Inl e \<Rightarrow> l | Inr l' \<Rightarrow> l')"

definition run_ledger ::
  "bool \<Rightarrow> (string \<Rightarrow> pyfloat option) \<Rightarrow> ledger_op list \<Rightarrow> ledger" where
  "run_ledger pad float_of ops = foldl (ledger_step pad float_of) empty_ledger ops"

text \<open>
  The invariant of a row with date text \<open>d\<close>, amount \<open>a\<close> and month-year text \<open>my\<close>: the
  amount is greater than 0; \<open>d\<close> parses, and \<open>my\<close> is the month and year of the parsed
  date as \<open>%m/%Y\<close> writes them; and when \<open>d\<close> has the shape \<open>DD/MM/YYYY\<close> and the year is
  written with four digits, \<open>my\<close> is the part \<open>MM/YYYY\<close> of \<open>d\<close> itself.
\<close>

definition row_ok :: "bool \<Rightarrow> string \<Rightarrow> pyfloat \<Rightarrow> string \<Rightarrow> bool" where
  "row_ok pad d a my =
     (gt_zero a
      \<and> (\<exists>dt. strptime d = Some dt \<and> my = strftime_mY pad dt
            \<and> (DD_MM_YYYY d \<and> (pad \<or> 1000 \<le> year dt) \<longrightarrow> my = drop 3 d)))"

text \<open>A stand-in for \<open>float\<close> on the three amounts used in the examples.\<close>

definition float_of_example :: "string \<Rightarrow> pyfloat option" where
  "float_of_example s =
     (if s = ''150.00'' then Some (Finite 150)
      else if s = ''500.00'' then Some (Finite 500)
      else if s = ''nan'' then Some NaN
      else None)"

definition ledger_ok :: "bool \<Rightarrow> ledger \<Rightarrow> bool" where
  "ledger_ok pad l =
     ((\<forall>e\<in>set (expenses l). row_ok pad (expense_date e) (expense_amount e) (expense_month_year e))
      \<and> (\<forall>c\<in>set (contributions l).
            row_ok pad (contribution_date c) (contribution_amount c) (contribution_month_year c)))"

section \<open>Sequences of calls on the table of persons\<close>

text \<open>
  The calls that write to \<open>pessoas\<close>: \<open>add_pessoa\<close>, \<open>update_pessoa\<close> and \<open>delete_pessoa\<close>
  (soft or hard) of the service, \<open>salvar_pessoa\<close> and \<open>excluir_pessoa\<close> of the controller.
  A call that raises leaves the database as it was.
\<close>

datatype operation =
  AddPessoa string pydict
  | UpdatePessoa int pydict
  | DeletePessoa int bool
  | SalvarPessoa string pydict "int option"
  | ExcluirPessoa int string

fun apply_op :: "database \<Rightarrow> operation \<Rightarrow> database" where
  "apply_op db (AddPessoa now p) =
     (case add_pessoa now db p of Inl e \<Rightarrow> db | Inr (i, db') \<Rightarrow> db')"
| "apply_op db (UpdatePessoa pid p) =
     (case update_pessoa db pid p of Inl e \<Rightarrow> db | Inr (b, db') \<Rightarrow> db')"
| "apply_op db (DeletePessoa pid soft) = snd (delete_pessoa db pid soft)"
| "apply_op db (SalvarPessoa now p pid) =
     (case salvar_pessoa now db p pid of Inl e \<Rightarrow> db | Inr (i, db') \<Rightarrow> db')"
| "apply_op db (ExcluirPessoa pid name) = snd (excluir_pessoa db pid name)"

definition run :: "database \<Rightarrow> operation list \<Rightarrow> database" where
  "run db ops = foldl apply_op db ops"

text \<open>The normalised document number of a row; \<open>NULL\<close> counts as empty.\<close>

definition document :: "pessoa \<Rightarrow> string" where
  "document r = normalize_cpf (case cpf r of None \<Rightarrow> [] | Some c \<Rightarrow> c)"

subsection \<open>Example data\<close>

definition ana :: pydict where
  "ana = [(''nome'', ''Ana Silva''), (''cpf'', ''111.444.777-35'')]"

definition bia :: pydict where
  "bia = [(''nome'', ''Bia Souza''), (''cpf'', ''11144477735'')]"

definition row_ana :: pessoa where
  "row_ana = \<lparr>pessoa_id = 1, nome = ''Ana Silva'', cpf = Some ''11144477735'',
     telefone = Some [], cidade = None, bairro = None, data_nascimento = None,
     email = None, rede_social = None, observacoes = None, ativo = True,
     data_cadastro = ''01/03/2024 10:00:00'', data_atualizacao = None\<rparr>"

definition db_ana :: database where
  "db_ana = empty_db\<lparr>pessoas := [row_ana], pessoas_seq := 1\<rparr>"


text \<open>
  The row of Ana after \<open>update_pessoa\<close> with the dictionary \<open>ana\<close>, whose document number
  is punctuated, and the row of Bia added after it.
\<close>

definition row_ana_updated :: pessoa where
  "row_ana_updated = row_ana\<lparr>cpf := Some ''111.444.777-35'', telefone := None\<rparr>"

definition row_bia :: pessoa where
  "row_bia = \<lparr>pessoa_id = 2, nome = ''Bia Souza'', cpf = Some ''11144477735'',
     telefone = Some [], cidade = None, bairro = None, data_nascimento = None,
     email = None, rede_social = None, observacoes = None, ativo = True,
     data_cadastro = ''02/03/2024 10:00:00'', data_atualizacao = None\<rparr>"

definition db_ana_updated :: database where
  "db_ana_updated = empty_db\<lparr>pessoas := [row_ana_updated], pessoas_seq := 1\<rparr>"

definition db_ana_bia :: database where
  "db_ana_bia = empty_db\<lparr>pessoas := [row_ana_updated, row_bia], pessoas_seq := 2\<rparr>"



section \<open>Properties of the validator\<close>

lemma normalize_cpf_filter: "normalize_cpf x = filter py_isdigit x"
  by (simp add: normalize_cpf_def)

lemma normalize_cpf_idem: "normalize_cpf (normalize_cpf x) = normalize_cpf x"
  by (simp add: normalize_cpf_filter)

lemma punct_not_digit: "\<not> py_isdigit (CHR ''.'')" "\<not> py_isdigit (CHR ''-'')"
  by (simp_all add: py_isdigit_def ascii_digit_def char_of_def)

text \<open>
  C7: for every input string \<open>x\<close>, normalising, formatting and normalising again gives the
  same digit string as normalising once.
\<close>

theorem normalize_format_normalize:
  "normalize_cpf (format_cpf (normalize_cpf x)) = normalize_cpf x"
proof -
  let ?d = "normalize_cpf x"
  have d: "filter py_isdigit ?d = ?d"
    using normalize_cpf_idem [of x] by (simp add: normalize_cpf_filter)
  show ?thesis
  proof (cases "length ?d = 11")
    case False
    then show ?thesis
      by (simp add: format_cpf_def normalize_cpf_idem Let_def)
  next
    case True
    have parts: "filter py_isdigit (take 3 ?d) @ filter py_isdigit (take 3 (drop 3 ?d))
        @ filter py_isdigit (take 3 (drop 6 ?d)) @ filter py_isdigit (take 2 (drop 9 ?d))
        = filter py_isdigit (take 3 ?d @ take 3 (drop 3 ?d) @ take 3 (drop 6 ?d)
            @ take 2 (drop 9 ?d))"
      by simp
    have split: "take 3 ?d @ take 3 (drop 3 ?d) @ take 3 (drop 6 ?d) @ take 2 (drop 9 ?d) = ?d"
    proof -
      have "take 2 (drop 9 ?d) = drop 9 ?d"
        using True by simp
      moreover have "take 3 (drop 6 ?d) @ drop 9 ?d = drop 6 ?d"
        using append_take_drop_id [of 3 "drop 6 ?d"] by simp
      moreover have "take 3 (drop 3 ?d) @ drop 6 ?d = drop 3 ?d"
        using append_take_drop_id [of 3 "drop 3 ?d"] by simp
      ultimately show ?thesis
        using append_take_drop_id [of 3 ?d] by simp
    qed
    have "normalize_cpf (format_cpf ?d)
        = filter py_isdigit (take 3 ?d @ ''.'' @ take 3 (drop 3 ?d) @ ''.''
            @ take 3 (drop 6 ?d) @ ''-'' @ take 2 (drop 9 ?d))"
      using True by (simp add: format_cpf_def normalize_cpf_idem Let_def normalize_cpf_filter)
    also have "\<dots> = filter py_isdigit (take 3 ?d @ take 3 (drop 3 ?d) @ take 3 (drop 6 ?d)
            @ take 2 (drop 9 ?d))"
      using punct_not_digit by simp
    also have "\<dots> = ?d"
      using split d by simp
    finally show ?thesis .
  qed
qed

section \<open>Properties of the check digits\<close>

lemma length_range_down: "length (range_down w 1) = w - 1"
  unfolding range_down_def by (simp del: upt_Suc)

lemma range_down_nth: "i < w - 1 \<Longrightarrow> range_down w 1 ! i = w - i"
  unfolding range_down_def by (simp add: rev_nth del: upt_Suc)

lemma calc_digit_spec:
  assumes "length ds = w - 1"
  shows "calc_digit ds (range_down w 1) = check_digit_spec w ds"
proof -
  have len: "length (map (\<lambda>(a, b). a * b) (zip ds (range_down w 1))) = length ds"
    using assms length_range_down [of w] by simp
  have "sum_list (map (\<lambda>(a, b). a * b) (zip ds (range_down w 1)))
      = (\<Sum>i = 0..<length ds. (map (\<lambda>(a, b). a * b) (zip ds (range_down w 1))) ! i)"
    using len sum_list_sum_nth [of "map (\<lambda>(a, b). a * b) (zip ds (range_down w 1))"] by simp
  also have "\<dots> = (\<Sum>i = 0..<length ds. (w - i) * ds ! i)"
  proof (rule sum.cong)
    fix i assume "i \<in> {0..<length ds}"
    then have i: "i < length ds" "i < w - 1" "i < length (range_down w 1)"
      using assms length_range_down [of w] by simp_all
    then show "map (\<lambda>(a, b). a * b) (zip ds (range_down w 1)) ! i = (w - i) * ds ! i"
      using range_down_nth [of i w] by (simp add: mult.commute)
  qed simp
  also have "\<dots> = weighted_sum w ds"
    by (simp add: weighted_sum_def atLeast0LessThan)
  finally show ?thesis
    by (simp add: calc_digit_def check_digit_spec_def Let_def)
qed

lemma all_identical_11: "length d = 11 \<Longrightarrow> all_identical d = (d = replicate 11 (hd d))"
  by (simp add: all_identical_def)

text \<open>
  C5: when the normalisation of \<open>x\<close> is an 11-digit string whose digits are not all the
  same, \<open>validate_cpf x\<close> holds exactly when the tenth digit is the first check digit
  (weights 10 .. 2 over the first nine digits) and the eleventh digit is the second check
  digit (weights 11 .. 2 over the first ten digits); and \<open>validate_cpf x\<close> is false whenever
  the normalised length is not 11 or all digits are identical.
\<close>

theorem validate_cpf_check_digits:
  "(length (normalize_cpf x) = 11 \<and> list_all ascii_digit (normalize_cpf x)
      \<and> \<not> all_identical (normalize_cpf x)
    \<longrightarrow> (validate_cpf x \<longleftrightarrow>
          int_of_digit (normalize_cpf x ! 9)
            = check_digit_spec 10 (map int_of_digit (take 9 (normalize_cpf x)))
        \<and> int_of_digit (normalize_cpf x ! 10)
            = check_digit_spec 11 (map int_of_digit (take 10 (normalize_cpf x)))))
   \<and> (length (normalize_cpf x) \<noteq> 11 \<or> all_identical (normalize_cpf x)
        \<longrightarrow> \<not> validate_cpf x)"
proof (intro conjI impI)
  assume h: "length (normalize_cpf x) = 11 \<and> list_all ascii_digit (normalize_cpf x)
      \<and> \<not> all_identical (normalize_cpf x)"
  let ?d = "normalize_cpf x"
  have l9: "length (take 9 (map int_of_digit ?d)) = 10 - 1"
    and l10: "length (take 10 (map int_of_digit ?d)) = 11 - 1"
    using h by simp_all
  have ne: "?d \<noteq> replicate 11 (hd ?d)"
    using h all_identical_11 [of ?d] by simp
  have pat: "CPF_PATTERN_match ?d"
    using h by (simp add: CPF_PATTERN_match_def)
  have "validate_cpf x \<longleftrightarrow>
      map int_of_digit ?d ! 9 = calc_digit (take 9 (map int_of_digit ?d)) (range_down 10 1)
    \<and> map int_of_digit ?d ! 10 = calc_digit (take 10 (map int_of_digit ?d)) (range_down 11 1)"
    using ne pat unfolding validate_cpf_def Let_def by simp
  then show "validate_cpf x \<longleftrightarrow>
          int_of_digit (normalize_cpf x ! 9)
            = check_digit_spec 10 (map int_of_digit (take 9 (normalize_cpf x)))
        \<and> int_of_digit (normalize_cpf x ! 10)
            = check_digit_spec 11 (map int_of_digit (take 10 (normalize_cpf x)))"
    using h calc_digit_spec [OF l9] calc_digit_spec [OF l10] by (simp add: take_map)
next
  assume h: "length (normalize_cpf x) \<noteq> 11 \<or> all_identical (normalize_cpf x)"
  show "\<not> validate_cpf x"
  proof (cases "length (normalize_cpf x) = 11")
    case False
    then show ?thesis by (simp add: validate_cpf_def CPF_PATTERN_match_def Let_def)
  next
    case True
    then have "normalize_cpf x = replicate 11 (hd (normalize_cpf x))"
      using h all_identical_11 [of "normalize_cpf x"] by simp
    then show ?thesis unfolding validate_cpf_def Let_def by simp
  qed
qed


theorem validate_cpf_check_digits_witness:
  "length (normalize_cpf ''111.444.777-35'') = 11
   \<and> list_all ascii_digit (normalize_cpf ''111.444.777-35'')
   \<and> \<not> all_identical (normalize_cpf ''111.444.777-35'')
   \<and> validate_cpf ''111.444.777-35''
   \<and> int_of_digit (normalize_cpf ''111.444.777-35'' ! 9)
       = check_digit_spec 10 (map int_of_digit (take 9 (normalize_cpf ''111.444.777-35'')))
   \<and> int_of_digit (normalize_cpf ''111.444.777-35'' ! 10)
       = check_digit_spec 11 (map int_of_digit (take 10 (normalize_cpf ''111.444.777-35'')))
   \<and> length (normalize_cpf ''123'') \<noteq> 11 \<and> \<not> validate_cpf ''123''
   \<and> all_identical (normalize_cpf ''111.111.111-11'') \<and> \<not> validate_cpf ''111.111.111-11''"
proof -
  have h: "length (normalize_cpf ''111.444.777-35'') = 11"
    "list_all ascii_digit (normalize_cpf ''111.444.777-35'')"
    "\<not> all_identical (normalize_cpf ''111.444.777-35'')"
    "validate_cpf ''111.444.777-35''"
    by code_simp+
  have k: "length (normalize_cpf ''123'') \<noteq> 11"
    "all_identical (normalize_cpf ''111.111.111-11'')"
    by code_simp+
  show ?thesis
    using validate_cpf_check_digits [of "''111.444.777-35''"]
      validate_cpf_check_digits [of "''123''"]
      validate_cpf_check_digits [of "''111.111.111-11''"] h k
    by blast
qed

section \<open>Properties of the order of events\<close>

lemma digit_lt: "ascii_digit a \<Longrightarrow> ascii_digit b \<Longrightarrow> (a < b) = (int_of_digit a < int_of_digit b)"
  by (auto simp: ascii_digit_def int_of_digit_def less_char_def)

lemma digit_eq: "ascii_digit a \<Longrightarrow> ascii_digit b \<Longrightarrow> (a = b) = (int_of_digit a = int_of_digit b)"
  by (auto simp: ascii_digit_def int_of_digit_def)

lemma digit_le9: "ascii_digit a \<Longrightarrow> int_of_digit a \<le> 9"
  by (auto simp: ascii_digit_def int_of_digit_def)

lemma digit_not_slash: "ascii_digit a \<Longrightarrow> a \<noteq> CHR ''/''"
  by (auto simp: ascii_digit_def)

lemma digit_not_space: "ascii_digit a \<Longrightarrow> a \<noteq> CHR '' ''"
  by (auto simp: ascii_digit_def)

lemma DD_MM_YYYY_E:
  assumes "DD_MM_YYYY s"
  obtains d1 d2 m1 m2 y1 y2 y3 y4 where
    "s = [d1, d2, CHR ''/'', m1, m2, CHR ''/'', y1, y2, y3, y4]"
    "ascii_digit d1" "ascii_digit d2" "ascii_digit m1" "ascii_digit m2"
    "ascii_digit y1" "ascii_digit y2" "ascii_digit y3" "ascii_digit y4"
  using assms by (auto simp: DD_MM_YYYY_def split: list.splits)

lemma base_eq:
  fixes x y x' y' k :: nat
  assumes "y < k" "y' < k"
  shows "(k * x + y = k * x' + y') = (x = x' \<and> y = y')"
proof
  assume e: "k * x + y = k * x' + y'"
  have "(k * x + y) div k = x" "(k * x + y) mod k = y"
    "(k * x' + y') div k = x'" "(k * x' + y') mod k = y'"
    using assms by simp_all
  then show "x = x' \<and> y = y'" using e by metis
qed simp

lemma two_digits_less:
  assumes "ascii_digit a" "ascii_digit b" "ascii_digit c" "ascii_digit d"
  shows "([a, b] < [c, d]) = (two_digits a b < two_digits c d)"
  using assms digit_le9 [of b] digit_le9 [of d]
  by (auto simp: two_digits_def digit_lt digit_eq)

lemma two_digits_eq:
  assumes "ascii_digit a" "ascii_digit b" "ascii_digit c" "ascii_digit d"
  shows "([a, b] = [c, d]) = (two_digits a b = two_digits c d)"
proof -
  have "int_of_digit b < 10" "int_of_digit d < 10"
    using assms digit_le9 [of b] digit_le9 [of d] by simp_all
  then show ?thesis
    using assms by (simp add: two_digits_def digit_eq base_eq)
qed

lemma two_digits_le99: "ascii_digit a \<Longrightarrow> ascii_digit b \<Longrightarrow> two_digits a b \<le> 99"
  using digit_le9 [of a] digit_le9 [of b] by (simp add: two_digits_def)

lemma four_digits_less:
  assumes "ascii_digit a" "ascii_digit b" "ascii_digit c" "ascii_digit d"
    "ascii_digit a'" "ascii_digit b'" "ascii_digit c'" "ascii_digit d'"
  shows "([a, b, c, d] < [a', b', c', d'])
    = (100 * two_digits a b + two_digits c d < 100 * two_digits a' b' + two_digits c' d')"
proof -
  have "([a, b, c, d] < [a', b', c', d']) = ([a, b] < [a', b'] \<or> ([a, b] = [a', b'] \<and> [c, d] < [c', d']))"
    by auto
  also have "\<dots> = (two_digits a b < two_digits a' b'
      \<or> (two_digits a b = two_digits a' b' \<and> two_digits c d < two_digits c' d'))"
    using assms by (simp only: two_digits_less two_digits_eq)
  also have "\<dots> = (100 * two_digits a b + two_digits c d < 100 * two_digits a' b' + two_digits c' d')"
    using two_digits_le99 [of c d] two_digits_le99 [of c' d'] assms by auto
  finally show ?thesis .
qed

lemma four_digits_eq:
  assumes "ascii_digit a" "ascii_digit b" "ascii_digit c" "ascii_digit d"
    "ascii_digit a'" "ascii_digit b'" "ascii_digit c'" "ascii_digit d'"
  shows "([a, b, c, d] = [a', b', c', d'])
    = (100 * two_digits a b + two_digits c d = 100 * two_digits a' b' + two_digits c' d')"
proof -
  have "([a, b, c, d] = [a', b', c', d']) = ([a, b] = [a', b'] \<and> [c, d] = [c', d'])"
    by auto
  also have "\<dots> = (two_digits a b = two_digits a' b' \<and> two_digits c d = two_digits c' d')"
    using assms by (simp only: two_digits_eq)
  also have "\<dots> = (100 * two_digits a b + two_digits c d = 100 * two_digits a' b' + two_digits c' d')"
  proof -
    have "two_digits c d < 100" "two_digits c' d' < 100"
      using two_digits_le99 [of c d] two_digits_le99 [of c' d'] assms by simp_all
    then show ?thesis by (simp add: base_eq)
  qed
  finally show ?thesis .
qed

lemma strptime_DD_MM_YYYY:
  assumes "ascii_digit d1" "ascii_digit d2" "ascii_digit m1" "ascii_digit m2"
    "ascii_digit y1" "ascii_digit y2" "ascii_digit y3" "ascii_digit y4"
    and "strptime [d1, d2, CHR ''/'', m1, m2, CHR ''/'', y1, y2, y3, y4] = Some dt"
  shows "day dt = two_digits d1 d2 \<and> month dt = two_digits m1 m2
    \<and> year dt = 100 * two_digits y1 y2 + two_digits y3 y4"
proof -
  have md: "set (match_d (d1 # d2 # r)) \<subseteq> {(two_digits d1 d2, r), (int_of_digit d1, d2 # r)}" for r
    using assms(1) by (auto simp: match_d_def digit_not_space split: if_splits)
  have mm: "set (match_m (m1 # m2 # r)) \<subseteq> {(two_digits m1 m2, r), (int_of_digit m1, m2 # r)}" for r
    by (auto simp: match_m_def split: if_splits)
  have s2: "match_slash (d2 # r) = []" "match_slash (m2 # r) = []" for r
    using assms(2,4) by (simp_all add: match_slash_def digit_not_slash)
  have "set (regex_dmY [d1, d2, CHR ''/'', m1, m2, CHR ''/'', y1, y2, y3, y4])
      \<subseteq> {(two_digits d1 d2, two_digits m1 m2, 100 * two_digits y1 y2 + two_digits y3 y4, [])}"
    using md [of "[CHR ''/'', m1, m2, CHR ''/'', y1, y2, y3, y4]"]
      mm [of "[CHR ''/'', y1, y2, y3, y4]"] s2
    by (fastforce simp: regex_dmY_def match_slash_def match_Y_def split: if_splits)
  then show ?thesis
    using assms(9) by (auto simp: strptime_def split: list.splits if_splits)
qed



lemma order_core:
  assumes da: "ascii_digit d1" "ascii_digit d2" "ascii_digit m1" "ascii_digit m2"
      "ascii_digit y1" "ascii_digit y2" "ascii_digit y3" "ascii_digit y4"
    and db: "ascii_digit e1" "ascii_digit e2" "ascii_digit n1" "ascii_digit n2"
      "ascii_digit z1" "ascii_digit z2" "ascii_digit z3" "ascii_digit z4"
    and px: "strptime [d1, d2, CHR ''/'', m1, m2, CHR ''/'', y1, y2, y3, y4] = Some x"
    and py: "strptime [e1, e2, CHR ''/'', n1, n2, CHR ''/'', z1, z2, z3, z4] = Some y"
  shows "order_by_data_evento_desc [d1, d2, CHR ''/'', m1, m2, CHR ''/'', y1, y2, y3, y4]
      [e1, e2, CHR ''/'', n1, n2, CHR ''/'', z1, z2, z3, z4] = later x y"
proof -
  have x: "day x = two_digits d1 d2" "month x = two_digits m1 m2"
    "year x = 100 * two_digits y1 y2 + two_digits y3 y4"
    using strptime_DD_MM_YYYY [OF da px] by blast+
  have y: "day y = two_digits e1 e2" "month y = two_digits n1 n2"
    "year y = 100 * two_digits z1 z2 + two_digits z3 z4"
    using strptime_DD_MM_YYYY [OF db py] by blast+
  have sa: "substr [d1, d2, CHR ''/'', m1, m2, CHR ''/'', y1, y2, y3, y4] 7 4 = [y1, y2, y3, y4]"
    "substr [d1, d2, CHR ''/'', m1, m2, CHR ''/'', y1, y2, y3, y4] 4 2 = [m1, m2]"
    "substr [d1, d2, CHR ''/'', m1, m2, CHR ''/'', y1, y2, y3, y4] 1 2 = [d1, d2]"
    by (simp_all add: substr_def)
  have sb: "substr [e1, e2, CHR ''/'', n1, n2, CHR ''/'', z1, z2, z3, z4] 7 4 = [z1, z2, z3, z4]"
    "substr [e1, e2, CHR ''/'', n1, n2, CHR ''/'', z1, z2, z3, z4] 4 2 = [n1, n2]"
    "substr [e1, e2, CHR ''/'', n1, n2, CHR ''/'', z1, z2, z3, z4] 1 2 = [e1, e2]"
    by (simp_all add: substr_def)
  have Y: "([z1, z2, z3, z4] < [y1, y2, y3, y4]) = (year y < year x)"
    "([y1, y2, y3, y4] = [z1, z2, z3, z4]) = (year x = year y)"
    using four_digits_less [OF db(5-8) da(5-8)] four_digits_eq [OF da(5-8) db(5-8)]
    by (simp_all only: x y)
  have M: "([n1, n2] < [m1, m2]) = (month y < month x)"
    "([m1, m2] = [n1, n2]) = (month x = month y)"
    using two_digits_less [OF db(3,4) da(3,4)] two_digits_eq [OF da(3,4) db(3,4)]
    by (simp_all only: x y)
  have D: "([e1, e2] < [d1, d2]) = (day y < day x)"
    using two_digits_less [OF db(1,2) da(1,2)] by (simp only: x y)
  show ?thesis
    unfolding order_by_data_evento_desc_def later_def sa sb Y M D ..
qed

text \<open>
  C8: for two date texts of the shape \<open>DD/MM/YYYY\<close> that \<open>strptime\<close> accepts, the order of
  \<open>search_eventos\<close> (the substrings at positions 7 to 10, then 4 to 5, then 1 to 2, each
  descending) places \<open>a\<close> strictly before \<open>b\<close> exactly when the date parsed from \<open>a\<close> is
  later than the date parsed from \<open>b\<close>.
\<close>

theorem order_by_data_evento_desc_chronological:
  assumes "DD_MM_YYYY a" "DD_MM_YYYY b" "strptime a = Some x" "strptime b = Some y"
  shows "order_by_data_evento_desc a b = later x y"
  using assms(1)
proof (rule DD_MM_YYYY_E)
  fix d1 d2 m1 m2 y1 y2 y3 y4
  assume a: "a = [d1, d2, CHR ''/'', m1, m2, CHR ''/'', y1, y2, y3, y4]"
    and da: "ascii_digit d1" "ascii_digit d2" "ascii_digit m1" "ascii_digit m2"
      "ascii_digit y1" "ascii_digit y2" "ascii_digit y3" "ascii_digit y4"
  show ?thesis
    using assms(2)
  proof (rule DD_MM_YYYY_E)
    fix e1 e2 n1 n2 z1 z2 z3 z4
    assume b: "b = [e1, e2, CHR ''/'', n1, n2, CHR ''/'', z1, z2, z3, z4]"
      and db: "ascii_digit e1" "ascii_digit e2" "ascii_digit n1" "ascii_digit n2"
        "ascii_digit z1" "ascii_digit z2" "ascii_digit z3" "ascii_digit z4"
    from assms(3) have px: "strptime [d1, d2, CHR ''/'', m1, m2, CHR ''/'', y1, y2, y3, y4] = Some x"
      unfolding a .
    from assms(4) have py: "strptime [e1, e2, CHR ''/'', n1, n2, CHR ''/'', z1, z2, z3, z4] = Some y"
      unfolding b .
    show ?thesis
      unfolding a b by (rule order_core [OF da db px py])
  qed
qed

theorem order_by_data_evento_desc_chronological_witness: "DD_MM_YYYY ''10/03/2024'' \<and> DD_MM_YYYY ''05/03/2024''
   \<and> strptime ''10/03/2024'' = Some \<lparr>year = 2024, month = 3, day = 10\<rparr>
   \<and> strptime ''05/03/2024'' = Some \<lparr>year = 2024, month = 3, day = 5\<rparr>
   \<and> order_by_data_evento_desc ''10/03/2024'' ''05/03/2024''
   \<and> later \<lparr>year = 2024, month = 3, day = 10\<rparr> \<lparr>year = 2024, month = 3, day = 5\<rparr>"
proof -
  have h: "DD_MM_YYYY ''10/03/2024''" "DD_MM_YYYY ''05/03/2024''"
    "strptime ''10/03/2024'' = Some \<lparr>year = 2024, month = 3, day = 10\<rparr>"
    "strptime ''05/03/2024'' = Some \<lparr>year = 2024, month = 3, day = 5\<rparr>"
    by code_simp+
  have l: "later \<lparr>year = 2024, month = 3, day = 10\<rparr> \<lparr>year = 2024, month = 3, day = 5\<rparr>"
    by (simp add: later_def)
  show ?thesis
    using order_by_data_evento_desc_chronological [OF h] h l by simp
qed

section \<open>Properties of the table of persons\<close>


text \<open>
  C1 fails on the code: Ana is added, \<open>update_pessoa\<close> is called on her row with her
  document number punctuated, and Bia is added with the same number unpunctuated. The
  service checks the normalised number and hands the dictionary to the store as it came,
  so the column holds the punctuated text; the check of the add and the UNIQUE column
  compare texts, and both rows are stored active with the same normalised document number.
\<close>

theorem update_pessoa_breaks_document_uniqueness:
  "add_pessoa ''01/03/2024 10:00:00'' empty_db ana = Inr (1, db_ana)
   \<and> update_pessoa db_ana 1 ana = Inr (True, db_ana_updated)
   \<and> add_pessoa ''02/03/2024 10:00:00'' db_ana_updated bia = Inr (2, db_ana_bia)
   \<and> run empty_db [AddPessoa ''01/03/2024 10:00:00'' ana, UpdatePessoa 1 ana,
        AddPessoa ''02/03/2024 10:00:00'' bia] = db_ana_bia
   \<and> map pessoa_id (pessoas db_ana_bia) = [1, 2]
   \<and> map ativo (pessoas db_ana_bia) = [True, True]
   \<and> map cpf (pessoas db_ana_bia) = [Some ''111.444.777-35'', Some ''11144477735'']
   \<and> map document (pessoas db_ana_bia) = [''11144477735'', ''11144477735'']"
  by code_simp








section \<open>Properties of the cached search\<close>

text \<open>
  C3 fails on the code: a search caches the empty result, \<open>add_pessoa\<close> stores Ana and
  leaves the cache, and the second search with the same arguments returns the cached empty
  list, while the query on the database now gives the row of Ana.
\<close>

theorem search_pessoas_stale:
  "search_pessoas (new_service empty_db) None True
     = Inr ([], \<lparr>svc_db = empty_db, search_cache = [((None, True), [])]\<rparr>)
   \<and> service_add_pessoa ''01/03/2024 10:00:00''
       \<lparr>svc_db = empty_db, search_cache = [((None, True), [])]\<rparr> ana
     = Inr (1, \<lparr>svc_db = db_ana, search_cache = [((None, True), [])]\<rparr>)
   \<and> search_pessoas \<lparr>svc_db = db_ana, search_cache = [((None, True), [])]\<rparr> None True
     = Inr ([], \<lparr>svc_db = db_ana, search_cache = [((None, True), [])]\<rparr>)
   \<and> search_pessoas_query db_ana None True = [row_ana]"
  by code_simp

text \<open>
  C10: \<open>search_pessoas\<close> called with a dictionary for \<open>filters\<close> raises \<open>TypeError\<close>, whatever
  the service and the dictionary (no query is run: the result does not depend on the
  database); called with \<open>None\<close> it returns rows.
\<close>

theorem search_pessoas_unhashable:
  "search_pessoas svc (Some d) only_active = Inl TypeError
   \<and> (\<exists>res svc'. search_pessoas svc None only_active = Inr (res, svc'))"
  by (simp add: search_pessoas_def hashable_def Let_def split: option.splits)

section \<open>Properties of the backup\<close>

text \<open>
  C4 fails on the code: \<open>create_backup\<close> does not change what \<open>should_backup\<close> answers on
  the same manager; on a manager opened on a database without \<open>last_backup\<close>,
  \<open>should_backup\<close> right after \<open>create_backup\<close> is true. The time is in the table
  \<open>config\<close>, and a manager opened anew on the database answers false.
\<close>

theorem should_backup_after_create_backup:
  "should_backup now (snd (create_backup now1 now2 m)) = should_backup now m
   \<and> should_backup t (snd (create_backup t t (init_manager empty_db)))
   \<and> get_last_backup_time (dm_db (snd (create_backup t t (init_manager empty_db)))) = Some t
   \<and> \<not> should_backup t (init_manager (dm_db (snd (create_backup t t (init_manager empty_db)))))"
  by (simp add: should_backup_def create_backup_def Let_def init_manager_def
    get_last_backup_time_def get_config_def set_config_def empty_db_def
    AUTO_BACKUP_INTERVAL_def)

section \<open>Properties of the ledger\<close>

lemma digit_char_digits: "\<forall>c\<in>set ''0123456789''. digit_char (int_of_digit c) = c"
  by code_simp

lemma digit_char_int_of_digit: "ascii_digit c \<Longrightarrow> digit_char (int_of_digit c) = c"
  using digit_char_digits unfolding ascii_digit_def by blast

lemma int_of_digit_zero: "ascii_digit c \<Longrightarrow> (int_of_digit c = 0) = (c = CHR ''0'')"
  by (auto simp: ascii_digit_def int_of_digit_def)

lemma strftime_m_two_digits:
  assumes "ascii_digit a" "ascii_digit b"
  shows "strftime_m (two_digits a b) = [a, b]"
proof -
  have "int_of_digit b \<le> 9" using assms digit_le9 by simp
  then have "(10 * int_of_digit a + int_of_digit b) div 10 = int_of_digit a"
    "(10 * int_of_digit a + int_of_digit b) mod 10 = int_of_digit b"
    by simp_all
  then show ?thesis
    using assms by (simp add: strftime_m_def two_digits_def digit_char_int_of_digit)
qed

lemma decimal_digits:
  fixes w x y z :: nat
  assumes le: "w \<le> 9" "x \<le> 9" "y \<le> 9" "z \<le> 9"
  shows "(1000 * w + 100 * x + 10 * y + z) div 1000 = w"
    "(1000 * w + 100 * x + 10 * y + z) div 100 mod 10 = x"
    "(1000 * w + 100 * x + 10 * y + z) div 10 mod 10 = y"
    "(1000 * w + 100 * x + 10 * y + z) mod 10 = z"
proof -
  have e1: "1000 * w + 100 * x + 10 * y + z = 1000 * w + (100 * x + 10 * y + z)"
    and e2: "1000 * w + 100 * x + 10 * y + z = 100 * (10 * w + x) + (10 * y + z)"
    and e3: "1000 * w + 100 * x + 10 * y + z = 10 * (10 * (10 * w + x) + y) + z"
    by simp_all
  have r: "100 * x + 10 * y + z < 1000" "10 * y + z < 100" "z < 10" "y < 10" "x < 10"
    using le by simp_all
  have d: "(b * k + c) div b = k" "(b * k + c) mod b = c" if "c < b" for b k c :: nat
    using that by simp_all
  show "(1000 * w + 100 * x + 10 * y + z) div 1000 = w"
    by (simp only: e1 d(1) [OF r(1)])
  show "(1000 * w + 100 * x + 10 * y + z) div 100 mod 10 = x"
    by (simp only: e2 d(1) [OF r(2)] d(2) [OF r(5)])
  show "(1000 * w + 100 * x + 10 * y + z) div 10 mod 10 = y"
    by (simp only: e3 d(1) [OF r(3)] d(2) [OF r(4)])
  show "(1000 * w + 100 * x + 10 * y + z) mod 10 = z"
    by (simp only: e3 d(2) [OF r(3)])
qed

lemma strftime_Y_four_digits:
  assumes "ascii_digit a" "ascii_digit b" "ascii_digit c" "ascii_digit d"
    and "pad \<or> 1000 \<le> 100 * two_digits a b + two_digits c d"
  shows "strftime_Y pad (100 * two_digits a b + two_digits c d) = [a, b, c, d]"
proof -
  define w x y z where "w = int_of_digit a" and "x = int_of_digit b"
    and "y = int_of_digit c" and "z = int_of_digit d"
  have le: "w \<le> 9" "x \<le> 9" "y \<le> 9" "z \<le> 9"
    using assms digit_le9 by (simp_all add: w_def x_def y_def z_def)
  have n: "100 * two_digits a b + two_digits c d = 1000 * w + 100 * x + 10 * y + z"
    by (simp add: two_digits_def w_def x_def y_def z_def)
  note dv = decimal_digits [OF le]
  have four: "[digit_char w, digit_char x, digit_char y, digit_char z] = [a, b, c, d]"
    using assms by (simp add: w_def x_def y_def z_def digit_char_int_of_digit)
  have nz: "\<not> pad \<Longrightarrow> a \<noteq> CHR ''0''"
  proof
    assume "\<not> pad" "a = CHR ''0''"
    then have "w = 0" "1000 \<le> 1000 * w + 100 * x + 10 * y + z"
      using assms(5) n by (simp_all add: w_def int_of_digit_def)
    then show False using le by simp
  qed
  show ?thesis
    unfolding n strftime_Y_def Let_def dv four using nz by auto
qed

lemma shape_month_year:
  assumes "DD_MM_YYYY d" "strptime d = Some dt" "pad \<or> 1000 \<le> year dt"
  shows "strftime_mY pad dt = drop 3 d"
  using assms(1)
proof (rule DD_MM_YYYY_E)
  fix d1 d2 m1 m2 y1 y2 y3 y4
  assume d: "d = [d1, d2, CHR ''/'', m1, m2, CHR ''/'', y1, y2, y3, y4]"
    and dg: "ascii_digit d1" "ascii_digit d2" "ascii_digit m1" "ascii_digit m2"
      "ascii_digit y1" "ascii_digit y2" "ascii_digit y3" "ascii_digit y4"
  from assms(2) have p: "strptime [d1, d2, CHR ''/'', m1, m2, CHR ''/'', y1, y2, y3, y4] = Some dt"
    unfolding d .
  have f: "month dt = two_digits m1 m2" "year dt = 100 * two_digits y1 y2 + two_digits y3 y4"
    using strptime_DD_MM_YYYY [OF dg p] by blast+
  have y: "strftime_Y pad (year dt) = [y1, y2, y3, y4]"
    unfolding f using strftime_Y_four_digits [OF dg(5-8)] assms(3) f by simp
  have m: "strftime_m (month dt) = [m1, m2]"
    unfolding f by (rule strftime_m_two_digits [OF dg(3,4)])
  show ?thesis
    unfolding strftime_mY_def y m d by simp
qed

lemma gt_zero_iff: "a \<noteq> NaN \<Longrightarrow> gt_zero a = (\<not> le_zero a)"
  by (cases a) (auto simp: gt_zero_def le_zero_def)

lemma row_okI:
  assumes "\<not> le_zero a" "a \<noteq> NaN" "get_month_year pad d = Some my"
  shows "row_ok pad d a my"
proof -
  from assms(3) obtain dt where dt: "strptime d = Some dt" "my = strftime_mY pad dt"
    by (auto simp: get_month_year_def)
  show ?thesis
    unfolding row_ok_def using assms(1,2) dt shape_month_year [of d dt pad]
    by (auto simp: gt_zero_iff)
qed

lemma add_expense_ok:
  assumes "ledger_ok pad l" "add_expense pad float_of c a d t l = Inr l'"
  shows "ledger_ok pad l'"
proof -
  from assms(2) obtain amount my where
    h: "\<not> le_zero amount" "amount \<noteq> NaN" "get_month_year pad (strip d) = Some my"
    and l': "l' = l\<lparr>expenses := expenses l @
        [\<lparr>expense_id = expenses_seq l + 1, expense_date = strip d, category = c,
          description = strip t, expense_amount = amount, expense_month_year = my\<rparr>],
        expenses_seq := expenses_seq l + 1\<rparr>"
    by (auto simp: add_expense_def Let_def split: if_splits option.splits)
  show ?thesis
    using assms(1) row_okI [OF h] unfolding l' ledger_ok_def by auto
qed

lemma add_contribution_ok:
  assumes "ledger_ok pad l" "add_contribution pad float_of c a d t l = Inr l'"
  shows "ledger_ok pad l'"
proof -
  from assms(2) obtain amount my where
    h: "\<not> le_zero amount" "amount \<noteq> NaN" "get_month_year pad (strip d) = Some my"
    and l': "l' = l\<lparr>contributions := contributions l @
        [\<lparr>contribution_id = contributions_seq l + 1, contribution_date = strip d,
          contribution_type = c, contributor = strip t, contribution_amount = amount,
          contribution_month_year = my\<rparr>],
        contributions_seq := contributions_seq l + 1\<rparr>"
    by (auto simp: add_contribution_def Let_def split: if_splits option.splits)
  show ?thesis
    using assms(1) row_okI [OF h] unfolding l' ledger_ok_def by auto
qed

lemma delete_ok:
  assumes "ledger_ok pad l"
  shows "delete_expense s c l = Inr l' \<Longrightarrow> ledger_ok pad l'"
    and "delete_contribution s c l = Inr l' \<Longrightarrow> ledger_ok pad l'"
  using assms
  by (auto simp: delete_expense_def delete_contribution_def ledger_ok_def
      split: option.splits if_splits)

lemma ledger_step_ok: "ledger_ok pad l \<Longrightarrow> ledger_ok pad (ledger_step pad float_of l x)"
  by (cases x)
    (auto simp: ledger_step_def split: sum.splits
      dest: add_expense_ok add_contribution_ok delete_ok)

lemma foldl_ledger_ok:
  "ledger_ok pad l \<Longrightarrow> ledger_ok pad (foldl (ledger_step pad float_of) l ops)"
  by (induction ops arbitrary: l) (simp_all add: ledger_step_ok)

text \<open>
  C9 fails as it is worded: \<open>month_year\<close> is not always the part \<open>MM/YYYY\<close> of the date
  text. Where \<open>%Y\<close> is not padded, the date 05/03/0999 is stored with 03/999; and the date
  5/3/2024, which \<open>strptime\<close> accepts, is stored as typed with 03/2024, while the text after
  its day is 3/2024.
\<close>

theorem month_year_not_part_of_date_counterexample:
  "add_expense False float_of_example ''Luz'' ''150,00'' ''05/03/0999'' [] empty_ledger
     = Inr (empty_ledger\<lparr>expenses :=
         [\<lparr>expense_id = 1, expense_date = ''05/03/0999'', category = ''Luz'',
           description = [], expense_amount = Finite 150,
           expense_month_year = ''03/999''\<rparr>], expenses_seq := 1\<rparr>)
   \<and> drop 3 ''05/03/0999'' = ''03/0999'' \<and> ''03/999'' \<noteq> ''03/0999''
   \<and> add_expense True float_of_example ''Luz'' ''150,00'' ''5/3/2024'' [] empty_ledger
     = Inr (empty_ledger\<lparr>expenses :=
         [\<lparr>expense_id = 1, expense_date = ''5/3/2024'', category = ''Luz'',
           description = [], expense_amount = Finite 150,
           expense_month_year = ''03/2024''\<rparr>], expenses_seq := 1\<rparr>)
   \<and> drop 2 ''5/3/2024'' = ''3/2024'' \<and> ''03/2024'' \<noteq> ''3/2024''"
  by code_simp

text \<open>
  C9, amended: after any sequence of uses of \<open>add_expense\<close>, \<open>delete_expense\<close>,
  \<open>add_contribution\<close> and \<open>delete_contribution\<close> on the empty ledger, every row of
  \<open>expenses\<close> and of \<open>contributions\<close> has an amount greater than 0, a date that parses, and
  a \<open>month_year\<close> that is the \<open>%m/%Y\<close> text of the parsed date; that text is the part
  \<open>MM/YYYY\<close> of the date text when the date text has the shape \<open>DD/MM/YYYY\<close> and the year
  is written with four digits (\<open>%Y\<close> padded, or a year from 1000 on).
\<close>

theorem ledger_rows_ok:
  "(\<forall>e\<in>set (expenses (run_ledger pad float_of ops)).
      row_ok pad (expense_date e) (expense_amount e) (expense_month_year e))
   \<and> (\<forall>c\<in>set (contributions (run_ledger pad float_of ops)).
      row_ok pad (contribution_date c) (contribution_amount c) (contribution_month_year c))"
proof -
  have "ledger_ok pad empty_ledger"
    by (simp add: ledger_ok_def empty_ledger_def)
  then have "ledger_ok pad (run_ledger pad float_of ops)"
    unfolding run_ledger_def by (rule foldl_ledger_ok)
  then show ?thesis
    by (simp add: ledger_ok_def)
qed

theorem ledger_rows_ok_witness:
  "expenses (run_ledger True float_of_example
       [AddExpense ''Luz'' ''150,00'' ''05/03/2024'' [],
        AddContribution ''Dizimo'' ''R$ 500,00'' ''10/03/2024'' ''Ana''])
     = [\<lparr>expense_id = 1, expense_date = ''05/03/2024'', category = ''Luz'', description = [],
          expense_amount = Finite 150, expense_month_year = ''03/2024''\<rparr>]
   \<and> contributions (run_ledger True float_of_example
       [AddExpense ''Luz'' ''150,00'' ''05/03/2024'' [],
        AddContribution ''Dizimo'' ''R$ 500,00'' ''10/03/2024'' ''Ana''])
     = [\<lparr>contribution_id = 1, contribution_date = ''10/03/2024'',
          contribution_type = ''Dizimo'', contributor = ''Ana'',
          contribution_amount = Finite 500, contribution_month_year = ''03/2024''\<rparr>]
   \<and> row_ok True ''05/03/2024'' (Finite 150) ''03/2024''
   \<and> row_ok True ''10/03/2024'' (Finite 500) ''03/2024''
   \<and> DD_MM_YYYY ''05/03/2024'' \<and> ''03/2024'' = drop 3 ''05/03/2024''"
proof -
  have e: "expenses (run_ledger True float_of_example
       [AddExpense ''Luz'' ''150,00'' ''05/03/2024'' [],
        AddContribution ''Dizimo'' ''R$ 500,00'' ''10/03/2024'' ''Ana''])
     = [\<lparr>expense_id = 1, expense_date = ''05/03/2024'', category = ''Luz'', description = [],
          expense_amount = Finite 150, expense_month_year = ''03/2024''\<rparr>]"
    by code_simp
  have c: "contributions (run_ledger True float_of_example
       [AddExpense ''Luz'' ''150,00'' ''05/03/2024'' [],
        AddContribution ''Dizimo'' ''R$ 500,00'' ''10/03/2024'' ''Ana''])
     = [\<lparr>contribution_id = 1, contribution_date = ''10/03/2024'',
          contribution_type = ''Dizimo'', contributor = ''Ana'',
          contribution_amount = Finite 500, contribution_month_year = ''03/2024''\<rparr>]"
    by code_simp
  have s: "DD_MM_YYYY ''05/03/2024''" "''03/2024'' = drop 3 ''05/03/2024''"
    by code_simp+
  show ?thesis
    using ledger_rows_ok [of True float_of_example
       "[AddExpense ''Luz'' ''150,00'' ''05/03/2024'' [],
        AddContribution ''Dizimo'' ''R$ 500,00'' ''10/03/2024'' ''Ana'']"] s
    unfolding e c by simp
qed

end
